theory Spec2Isabelle
  imports Main
begin

section \<open>The cart hook of src/hooks/useCart.tsx\<close>

text \<open>
  The hook keeps the cart in React state, mirrors it into \<open>localStorage\<close> under one key,
  asks a stock service before it raises an amount, and reports failures through
  \<open>toast.error\<close>. The model below passes the state explicitly: every operation takes the
  state the render holds and returns the state after the operation has run to completion
  (the calls are modelled one after the other, each from the cart the previous one set).

  Numbers. \<open>productId\<close> and \<open>amount\<close> are TypeScript \<open>number\<close>s; the data model of the
  specification makes them integers, and they are \<open>int\<close> here (unbounded, no \<open>NaN\<close>, no
  fractions).

  The provider component and \<open>useCart\<close> only hand the cart and the three operations on;
  they are not modelled. The operations are stated for whatever cart the state holds when
  they are called.
\<close>

subsection \<open>Data\<close>

text \<open>
  \<open>Product\<close> and \<open>Stock\<close> are imported from \<open>../types\<close>. The hook reads and writes
  only \<open>id\<close> and \<open>amount\<close> of a product; every other field is passed through untouched,
  so the remaining fields are one value of a type parameter \<open>'m\<close>.
\<close>

record 'm product =
  id_product :: int
  meta :: 'm
  amount :: int

record stock_info =
  id_stock :: int
  amount_stock :: int

text \<open>
  The body of the response to \<open>GET /products/:id\<close>. It is untyped in the source
  (\<open>product.data\<close>), and the object literal \<open>{...product.data, amount: 1}\<close> copies all of
  its fields, so it may or may not carry an \<open>amount\<close> of its own.
\<close>

record 'm product_data =
  id_data :: int
  meta_data :: 'm
  amount_data :: "int option"

text \<open>The four messages handed to \<open>toast.error\<close>:
  \<^item> \<open>Quantidade_fora_de_estoque\<close>: "Quantidade solicitada fora de estoque";
  \<^item> \<open>Erro_na_adicao\<close>: "Erro na adicao do produto";
  \<^item> \<open>Erro_na_remocao\<close>: "Erro na remocao do produto";
  \<^item> \<open>Erro_na_alteracao\<close>: "Erro na alteracao de quantidade do produto".\<close>

datatype toast =
  Quantidade_fora_de_estoque
  | Erro_na_adicao
  | Erro_na_remocao
  | Erro_na_alteracao

text \<open>The requests sent through \<open>api.get\<close>: \<open>/stock/:id\<close> and \<open>/products/:id\<close>.\<close>

datatype request = Get_stock int | Get_products int

text \<open>
  What the hook cannot decide itself: the answers of the two services (\<open>None\<close> is a
  request that throws at the \<open>await\<close>: network failure, 404, no readable body), the string
  the platform's \<open>JSON.stringify\<close> returns for a cart, the cart the platform's
  \<open>JSON.parse\<close> returns for a string (\<open>None\<close> when it throws), and whether
  \<open>localStorage.setItem\<close> throws for a key and a value (quota exceeded, storage disabled).
\<close>

record 'm env =
  api_stock :: "int \<Rightarrow> stock_info option"
  api_products :: "int \<Rightarrow> 'm product_data option"
  JSON_stringify :: "'m product list \<Rightarrow> string"
  JSON_parse :: "string \<Rightarrow> 'm product list option"
  setItem_throws :: "string \<Rightarrow> string \<Rightarrow> bool"

text \<open>
  The state an operation can change or that a caller can observe: the cart held by
  \<open>useState\<close>, the contents of \<open>localStorage\<close>, the notifications emitted so far and the
  requests sent so far (oldest first).
\<close>

record 'm state =
  cart :: "'m product list"
  localStorage :: "string \<rightharpoonup> string"
  toasts :: "toast list"
  requests :: "request list"

definition cart_key :: string where
  "cart_key = ''@RocketShoes:cart''"

subsection \<open>Array and platform primitives\<close>

text \<open>\<open>Array.prototype.findIndex\<close>: the index of the first match, \<open>-1\<close> when there is none.\<close>

fun findIndex :: "('a \<Rightarrow> bool) \<Rightarrow> 'a list \<Rightarrow> int" where
  "findIndex P [] = - 1"
| "findIndex P (x # xs) =
     (if P x then 0 else (let i = findIndex P xs in if i < 0 then - 1 else i + 1))"

text \<open>\<open>xs.splice(i, 1)\<close> for \<open>i \<ge> 0\<close>: the element at index \<open>i\<close> is taken out, if there is one.\<close>

definition splice1 :: "int \<Rightarrow> 'a list \<Rightarrow> 'a list" where
  "splice1 i xs = take (nat i) xs @ drop (nat i + 1) xs"

text \<open>
  \<open>productExists.amount = amount\<close>, where \<open>productExists\<close> is the object returned by
  \<open>find\<close>: the first product with the id is changed in place. \<open>[...cart]\<close> copies the array
  and not its objects, so the change shows in \<open>updatedCart\<close> and in \<open>cart\<close> alike.
\<close>

fun assign_amount :: "int \<Rightarrow> int \<Rightarrow> 'm product list \<Rightarrow> 'm product list" where
  "assign_amount productId a [] = []"
| "assign_amount productId a (p # ps) =
     (if id_product p = productId then p\<lparr>amount := a\<rparr> # ps
      else p # assign_amount productId a ps)"

text \<open>\<open>{...product.data, amount: 1}\<close>: the fields of the response are copied first and
  \<open>amount\<close> is written last, so an \<open>amount\<close> copied from the response does not survive.\<close>

definition newProduct :: "'m product_data \<Rightarrow> 'm product" where
  "newProduct d = \<lparr>id_product = id_data d, meta = meta_data d, amount = 1\<rparr>"

text \<open>\<open>toast.error(msg)\<close>, \<open>api.get(url)\<close> as far as the log goes, and \<open>setCart\<close>.\<close>

definition toast_error :: "toast \<Rightarrow> 'm state \<Rightarrow> 'm state" where
  "toast_error msg s = s\<lparr>toasts := toasts s @ [msg]\<rparr>"

definition sent :: "request \<Rightarrow> 'm state \<Rightarrow> 'm state" where
  "sent r s = s\<lparr>requests := requests s @ [r]\<rparr>"

definition setCart :: "'m product list \<Rightarrow> 'm state \<Rightarrow> 'm state" where
  "setCart c s = s\<lparr>cart := c\<rparr>"

text \<open>\<open>localStorage.setItem(key, value)\<close>: \<open>None\<close> when it throws, the state with the
  entry overwritten otherwise.\<close>

definition setItem :: "'m env \<Rightarrow> string \<Rightarrow> string \<Rightarrow> 'm state \<Rightarrow> 'm state option" where
  "setItem env k v s =
     (if setItem_throws env k v then None
      else Some (s\<lparr>localStorage := (localStorage s)(k \<mapsto> v)\<rparr>))"

subsection \<open>The initial cart\<close>

text \<open>
  The initialiser handed to \<open>useState\<close>, as a function of the contents of
  \<open>localStorage\<close>. \<open>getItem\<close> gives \<open>null\<close> for a key that is not stored; the test
  \<open>if (storagedCart)\<close> fails for \<open>null\<close> and for the empty string, and the cart is empty
  then. Otherwise the cart is what \<open>JSON.parse\<close> returns. The call is not inside a
  \<open>try\<close>: when \<open>JSON.parse\<close> throws, so does the initialiser (\<open>None\<close>).
\<close>

definition initial_cart :: "'m env \<Rightarrow> (string \<rightharpoonup> string) \<Rightarrow> 'm product list option" where
  "initial_cart env store =
     (let storagedCart = store cart_key
      in case storagedCart of
           Some text \<Rightarrow> if text \<noteq> [] then JSON_parse env text else Some []
         | None \<Rightarrow> Some [])"

subsection \<open>addProduct\<close>

definition addProduct :: "'m env \<Rightarrow> int \<Rightarrow> 'm state \<Rightarrow> 'm state" where
  "addProduct env productId s =
     (let updatedCart = cart s;
          productExists = find (\<lambda>product. id_product product = productId) updatedCart;
          s = sent (Get_stock productId) s
      in case api_stock env productId of
           None \<Rightarrow> toast_error Erro_na_adicao s
         | Some stock \<Rightarrow>
            (let stockAmount = amount_stock stock;
                 currentAmount = (case productExists of Some p \<Rightarrow> amount p | None \<Rightarrow> 0);
                 amount' = currentAmount + 1
             in if amount' > stockAmount then toast_error Quantidade_fora_de_estoque s
                else
                  (case productExists of
                     Some p \<Rightarrow>
                       (let updatedCart = assign_amount productId amount' updatedCart;
                            s = s\<lparr>cart := assign_amount productId amount' (cart s)\<rparr>;
                            s = setCart updatedCart s
                        in case setItem env cart_key (JSON_stringify env updatedCart) s of
                             None \<Rightarrow> toast_error Erro_na_adicao s
                           | Some s \<Rightarrow> s)
                   | None \<Rightarrow>
                       (let s = sent (Get_products productId) s
                        in case api_products env productId of
                             None \<Rightarrow> toast_error Erro_na_adicao s
                           | Some data \<Rightarrow>
                              (let updatedCart = updatedCart @ [newProduct data];
                                   s = setCart updatedCart s
                               in case setItem env cart_key (JSON_stringify env updatedCart) s of
                                    None \<Rightarrow> toast_error Erro_na_adicao s
                                  | Some s \<Rightarrow> s)))))"

subsection \<open>removeProduct\<close>

definition removeProduct :: "'m env \<Rightarrow> int \<Rightarrow> 'm state \<Rightarrow> 'm state" where
  "removeProduct env productId s =
     (let updatedCart = cart s;
          productIndex = findIndex (\<lambda>product. id_product product = productId) updatedCart
      in if productIndex \<ge> 0 then
           (let updatedCart = splice1 productIndex updatedCart;
                s = setCart updatedCart s
            in case setItem env cart_key (JSON_stringify env updatedCart) s of
                 None \<Rightarrow> toast_error Erro_na_remocao s
               | Some s \<Rightarrow> s)
         else toast_error Erro_na_remocao s)"

subsection \<open>updateProductAmount\<close>

definition updateProductAmount :: "'m env \<Rightarrow> int \<Rightarrow> int \<Rightarrow> 'm state \<Rightarrow> 'm state" where
  "updateProductAmount env productId amount' s =
     (if amount' \<le> 0 then s
      else
        (let s = sent (Get_stock productId) s
         in case api_stock env productId of
              None \<Rightarrow> toast_error Erro_na_alteracao s
            | Some stock \<Rightarrow>
               (let stockAmount = amount_stock stock
                in if amount' > stockAmount then toast_error Quantidade_fora_de_estoque s
                   else
                     (let updatedCart = cart s;
                          productExists =
                            find (\<lambda>product. id_product product = productId) updatedCart
                      in case productExists of
                           Some p \<Rightarrow>
                             (let updatedCart = assign_amount productId amount' updatedCart;
                                  s = s\<lparr>cart := assign_amount productId amount' (cart s)\<rparr>;
                                  s = setCart updatedCart s
                              in case setItem env cart_key (JSON_stringify env updatedCart) s of
                                   None \<Rightarrow> toast_error Erro_na_alteracao s
                                 | Some s \<Rightarrow> s)
                         | None \<Rightarrow> toast_error Erro_na_alteracao s))))"

subsection \<open>Sequences of calls\<close>

text \<open>A call of one of the three operations, and a run of calls, each with the answers
  the services and the storage give during that call.\<close>

datatype call = AddProduct int | RemoveProduct int | UpdateProductAmount int int

fun perform :: "'m env \<Rightarrow> call \<Rightarrow> 'm state \<Rightarrow> 'm state" where
  "perform env (AddProduct productId) s = addProduct env productId s"
| "perform env (RemoveProduct productId) s = removeProduct env productId s"
| "perform env (UpdateProductAmount productId a) s = updateProductAmount env productId a s"

fun run :: "('m env \<times> call) list \<Rightarrow> 'm state \<Rightarrow> 'm state" where
  "run [] s = s"
| "run ((env, c) # cs) s = run cs (perform env c s)"

subsection \<open>Notions the properties are stated with\<close>

text \<open>\<open>currentAmount\<close> of addProduct as a function of the cart: the amount of the product
  \<open>find\<close> returns, 0 when it returns none.\<close>

definition currentAmount :: "int \<Rightarrow> 'm product list \<Rightarrow> int" where
  "currentAmount productId c =
     (case find (\<lambda>product. id_product product = productId) c of
        Some p \<Rightarrow> amount p
      | None \<Rightarrow> 0)"

text \<open>The invariant of the cart: every amount is at least 1 and no id occurs twice.\<close>

definition cart_ok :: "'m product list \<Rightarrow> bool" where
  "cart_ok c = (list_all (\<lambda>p. 1 \<le> amount p) c \<and> distinct (map id_product c))"

text \<open>
  The catalog answers for the product it was asked for: when a call \<open>addProduct(productId)\<close>
  gets an answer from \<open>/products/:id\<close>, the \<open>id\<close> in the answer is \<open>productId\<close>. The
  hook takes the id of a new item from the answer and never compares it with the argument.
\<close>

fun catalog_ok :: "'m env \<times> call \<Rightarrow> bool" where
  "catalog_ok (env, AddProduct productId) =
     (case api_products env productId of
        None \<Rightarrow> True
      | Some d \<Rightarrow> id_data d = productId)"
| "catalog_ok (env, c) = True"

subsection \<open>Example data\<close>

text \<open>
  A shop whose products carry one more field, an integer price, so that \<open>'m\<close> is \<open>int\<close>.
  For such products \<open>cart_text\<close> is the text \<open>JSON.stringify\<close> returns: decimal numbers,
  quoted keys, no white space.
\<close>

fun decimal :: "nat \<Rightarrow> string" where
  "decimal n =
     (if n < 10 then [''0123456789'' ! n]
      else decimal (n div 10) @ [''0123456789'' ! (n mod 10)])"

definition number_text :: "int \<Rightarrow> string" where
  "number_text n = (if n < 0 then CHR ''-'' # decimal (nat (- n)) else decimal (nat n))"

definition key_text :: "string \<Rightarrow> string" where
  "key_text k = [CHR 0x22] @ k @ [CHR 0x22] @ '':''"

definition product_text :: "int product \<Rightarrow> string" where
  "product_text p =
     ''{'' @ key_text ''id'' @ number_text (id_product p) @ '','' @
     key_text ''price'' @ number_text (meta p) @ '','' @
     key_text ''amount'' @ number_text (amount p) @ ''}''"

fun comma_separated :: "string list \<Rightarrow> string" where
  "comma_separated [] = []"
| "comma_separated [x] = x"
| "comma_separated (x # y # ys) = x @ '','' @ comma_separated (y # ys)"

definition cart_text :: "int product list \<Rightarrow> string" where
  "cart_text c = ''['' @ comma_separated (map product_text c) @ '']''"

text \<open>
  The way back, for the texts \<open>cart_text\<close> writes: \<open>cart_of_text\<close> returns the cart
  \<open>JSON.parse\<close> returns for such a text, and \<open>None\<close> for a text of any other shape.
  \<open>read_products\<close> reads one product per step; its first argument bounds the number of
  steps, and the length of the text is always enough.
\<close>

definition digit_value :: "char \<Rightarrow> nat option" where
  "digit_value c =
     map_of [(CHR ''0'', 0), (CHR ''1'', 1), (CHR ''2'', 2), (CHR ''3'', 3), (CHR ''4'', 4),
             (CHR ''5'', 5), (CHR ''6'', 6), (CHR ''7'', 7), (CHR ''8'', 8), (CHR ''9'', 9)] c"

fun read_digits :: "nat \<Rightarrow> string \<Rightarrow> nat \<times> string" where
  "read_digits acc [] = (acc, [])"
| "read_digits acc (c # cs) =
     (case digit_value c of
        Some d \<Rightarrow> read_digits (10 * acc + d) cs
      | None \<Rightarrow> (acc, c # cs))"

definition read_natural :: "string \<Rightarrow> (nat \<times> string) option" where
  "read_natural s =
     (case s of
        [] \<Rightarrow> None
      | c # cs \<Rightarrow> (case digit_value c of
                    Some d \<Rightarrow> Some (read_digits d cs)
                  | None \<Rightarrow> None))"

definition read_number :: "string \<Rightarrow> (int \<times> string) option" where
  "read_number s =
     (case s of
        [] \<Rightarrow> None
      | c # cs \<Rightarrow>
          if c = CHR ''-'' then map_option (\<lambda>(n, r). (- int n, r)) (read_natural cs)
          else map_option (\<lambda>(n, r). (int n, r)) (read_natural s))"

fun expect :: "string \<Rightarrow> string \<Rightarrow> string option" where
  "expect [] s = Some s"
| "expect (p # ps) [] = None"
| "expect (p # ps) (c # cs) = (if p = c then expect ps cs else None)"

definition read_product :: "string \<Rightarrow> (int product \<times> string) option" where
  "read_product s =
     Option.bind (expect (''{'' @ key_text ''id'') s) (\<lambda>s.
     Option.bind (read_number s) (\<lambda>(i, s).
     Option.bind (expect ('','' @ key_text ''price'') s) (\<lambda>s.
     Option.bind (read_number s) (\<lambda>(m, s).
     Option.bind (expect ('','' @ key_text ''amount'') s) (\<lambda>s.
     Option.bind (read_number s) (\<lambda>(a, s).
     Option.bind (expect ''}'' s) (\<lambda>s.
     Some (\<lparr>id_product = i, meta = m, amount = a\<rparr>, s))))))))"

fun read_products :: "nat \<Rightarrow> string \<Rightarrow> int product list option" where
  "read_products 0 s = None"
| "read_products (Suc n) s =
     (case read_product s of
        None \<Rightarrow> None
      | Some (p, r) \<Rightarrow>
          if r = '']'' then Some [p]
          else (case r of
                  [] \<Rightarrow> None
                | c # r' \<Rightarrow>
                    if c = CHR '','' then map_option (Cons p) (read_products n r')
                    else None))"

definition cart_of_text :: "string \<Rightarrow> int product list option" where
  "cart_of_text s =
     (case s of
        [] \<Rightarrow> None
      | c # r \<Rightarrow>
          if c \<noteq> CHR ''['' then None
          else if r = '']'' then Some []
          else read_products (length r) r)"

text \<open>A number ends where the next character is not a digit, or the text ends.\<close>

definition no_digit_ahead :: "string \<Rightarrow> bool" where
  "no_digit_ahead r = (case r of [] \<Rightarrow> True | c # cs \<Rightarrow> digit_value c = None)"

text \<open>
  The shop: 5 units of product 1, 1 unit of product 2 and 2 units of product 3 in stock;
  the catalog knows products 1 and 2 only, and its answer for product 2 carries an
  \<open>amount\<close> of its own; neither service knows any other product; the storage accepts
  every write.
\<close>

definition shop :: "int env" where
  "shop =
     \<lparr>api_stock = (\<lambda>i. if i = 1 then Some \<lparr>id_stock = 1, amount_stock = 5\<rparr>
                       else if i = 2 then Some \<lparr>id_stock = 2, amount_stock = 1\<rparr>
                       else if i = 3 then Some \<lparr>id_stock = 3, amount_stock = 2\<rparr>
                       else None),
      api_products =
        (\<lambda>i. if i = 1 then Some \<lparr>id_data = 1, meta_data = 17990, amount_data = None\<rparr>
             else if i = 2 then Some \<lparr>id_data = 2, meta_data = 13990, amount_data = Some 7\<rparr>
             else None),
      JSON_stringify = cart_text,
      JSON_parse = cart_of_text,
      setItem_throws = (\<lambda>k v. False)\<rparr>"

text \<open>The same shop while the storage refuses every write.\<close>

definition shop_storage_full :: "int env" where
  "shop_storage_full = shop\<lparr>setItem_throws := (\<lambda>k v. True)\<rparr>"

text \<open>A first visit: empty cart, nothing stored, nothing emitted or sent yet.\<close>

definition first_visit :: "int state" where
  "first_visit = \<lparr>cart = [], localStorage = Map.empty, toasts = [], requests = []\<rparr>"

text \<open>A cart with one unit of product 1, and a cart with as much of products 1 and 2 as
  the shop has in stock; both stored.\<close>

definition one_item :: "int state" where
  "one_item =
     \<lparr>cart = [\<lparr>id_product = 1, meta = 17990, amount = 1\<rparr>],
      localStorage = [cart_key \<mapsto> cart_text [\<lparr>id_product = 1, meta = 17990, amount = 1\<rparr>]],
      toasts = [], requests = []\<rparr>"

definition all_in_stock :: "int state" where
  "all_in_stock =
     \<lparr>cart = [\<lparr>id_product = 1, meta = 17990, amount = 5\<rparr>,
              \<lparr>id_product = 2, meta = 13990, amount = 1\<rparr>],
      localStorage =
        [cart_key \<mapsto> cart_text [\<lparr>id_product = 1, meta = 17990, amount = 5\<rparr>,
                                \<lparr>id_product = 2, meta = 13990, amount = 1\<rparr>]],
      toasts = [], requests = []\<rparr>"

section \<open>Properties\<close>

subsection \<open>findIndex, find and splice\<close>

lemma findIndex_range: "- 1 \<le> findIndex P xs \<and> findIndex P xs < int (length xs)"
  by (induction xs) (auto simp: Let_def)

lemma findIndex_negative: "findIndex P xs < 0 \<longleftrightarrow> (\<forall>x \<in> set xs. \<not> P x)"
proof (induction xs)
  case Nil
  show ?case by simp
next
  case (Cons x xs)
  have "- 1 \<le> findIndex P xs" by (simp add: findIndex_range)
  with Cons show ?case by (auto simp: Let_def)
qed

lemma findIndex_first:
  "0 \<le> findIndex P xs \<Longrightarrow>
   P (xs ! nat (findIndex P xs)) \<and> (\<forall>j < nat (findIndex P xs). \<not> P (xs ! j))"
proof (induction xs)
  case Nil
  then show ?case by simp
next
  case (Cons x xs)
  show ?case
  proof (cases "P x")
    case True
    then show ?thesis by simp
  next
    case False
    with Cons.prems have pos: "0 \<le> findIndex P xs"
      by (simp add: Let_def split: if_splits)
    then have eq: "nat (findIndex P (x # xs)) = Suc (nat (findIndex P xs))"
      using False by (simp add: Let_def nat_add_distrib)
    from Cons.IH [OF pos] False show ?thesis
      unfolding eq by (auto simp: nth_Cons split: nat.splits)
  qed
qed

lemma find_findIndex:
  "find P xs = Some x \<Longrightarrow> 0 \<le> findIndex P xs \<and> xs ! nat (findIndex P xs) = x"
proof (induction xs)
  case Nil
  then show ?case by simp
next
  case (Cons y ys)
  show ?case
  proof (cases "P y")
    case True
    with Cons.prems show ?thesis by simp
  next
    case False
    with Cons.prems have "find P ys = Some x" by simp
    from Cons.IH [OF this] False show ?thesis
      by (simp add: Let_def nat_add_distrib)
  qed
qed

lemma find_distinct:
  "distinct (map f xs) \<Longrightarrow> x \<in> set xs \<Longrightarrow> find (\<lambda>y. f y = f x) xs = Some x"
  by (induction xs) (auto simp: rev_image_eqI)

lemma take_drop_filter:
  "distinct (map f xs) \<Longrightarrow> k < length xs \<Longrightarrow>
   take k xs @ drop (Suc k) xs = filter (\<lambda>x. f x \<noteq> f (xs ! k)) xs"
proof (induction xs arbitrary: k)
  case Nil
  then show ?case by simp
next
  case (Cons x xs)
  show ?case
  proof (cases k)
    case 0
    have "filter (\<lambda>y. f y \<noteq> f x) xs = xs"
      using Cons.prems(1) by (auto simp: filter_id_conv image_iff)
    with 0 show ?thesis by simp
  next
    case (Suc j)
    with Cons.prems have j: "j < length xs" and d: "distinct (map f xs)" by simp_all
    have "xs ! j \<in> set xs" using j by simp
    then have "f x \<noteq> f (xs ! j)" using Cons.prems(1) by auto
    with Cons.IH [OF d j] Suc show ?thesis by simp
  qed
qed

subsection \<open>Assignment to the amount of the product found\<close>

lemma assign_amount_update:
  "find (\<lambda>product. id_product product = i) c = Some p \<Longrightarrow>
   assign_amount i a c = c[nat (findIndex (\<lambda>product. id_product product = i) c) := p\<lparr>amount := a\<rparr>]"
proof (induction c)
  case Nil
  then show ?case by simp
next
  case (Cons q c)
  show ?case
  proof (cases "id_product q = i")
    case True
    with Cons.prems show ?thesis by simp
  next
    case False
    with Cons.prems have f: "find (\<lambda>product. id_product product = i) c = Some p" by simp
    then have "0 \<le> findIndex (\<lambda>product. id_product product = i) c"
      by (simp add: find_findIndex)
    with Cons.IH [OF f] False show ?thesis
      by (simp add: Let_def nat_add_distrib)
  qed
qed

lemma assign_amount_same:
  "find (\<lambda>product. id_product product = i) c = Some p \<Longrightarrow> assign_amount i (amount p) c = c"
  by (induction c) (auto split: if_splits)

lemma ids_assign_amount: "map id_product (assign_amount i a c) = map id_product c"
  by (induction c) auto

lemma amounts_assign_amount:
  "list_all (\<lambda>p. 1 \<le> amount p) c \<Longrightarrow> 1 \<le> a \<Longrightarrow>
   list_all (\<lambda>p. 1 \<le> amount p) (assign_amount i a c)"
  by (induction c) auto

lemma distinct_take_drop:
  "distinct (map f xs) \<Longrightarrow> distinct (map f (take n xs @ drop (Suc n) xs))"
proof (induction xs arbitrary: n)
  case Nil
  then show ?case by simp
next
  case (Cons x xs)
  show ?case
  proof (cases n)
    case 0
    with Cons.prems show ?thesis by simp
  next
    case (Suc k)
    have "f x \<notin> f ` set (take k xs)" "f x \<notin> f ` set (drop (Suc k) xs)"
      using Cons.prems by (auto dest: in_set_takeD in_set_dropD)
    with Cons Suc show ?thesis by simp
  qed
qed

subsection \<open>The invariant, operation by operation\<close>

lemma cart_ok_assign_amount: "cart_ok c \<Longrightarrow> 1 \<le> a \<Longrightarrow> cart_ok (assign_amount i a c)"
  by (simp add: cart_ok_def ids_assign_amount amounts_assign_amount)

lemma cart_ok_splice1: "cart_ok c \<Longrightarrow> cart_ok (splice1 i c)"
proof -
  assume ok: "cart_ok c"
  have "distinct (map id_product (take (nat i) c @ drop (Suc (nat i)) c))"
    using ok unfolding cart_ok_def by (simp only: distinct_take_drop)
  moreover have "list_all (\<lambda>p. 1 \<le> amount p) (take (nat i) c @ drop (Suc (nat i)) c)"
    using ok unfolding cart_ok_def list_all_iff
    by (auto dest: in_set_takeD in_set_dropD)
  ultimately show ?thesis by (simp add: cart_ok_def splice1_def)
qed

lemma cart_ok_newProduct:
  "cart_ok c \<Longrightarrow> find (\<lambda>product. id_product product = id_data d) c = None \<Longrightarrow>
   cart_ok (c @ [newProduct d])"
  by (auto simp: cart_ok_def find_None_iff newProduct_def)

lemma cart_ok_found: "cart_ok c \<Longrightarrow> find P c = Some p \<Longrightarrow> 1 \<le> amount p"
  by (auto simp: cart_ok_def list_all_iff find_Some_iff)

text \<open>Every operation ends in one of a few shapes; the cart of each is plain.\<close>

lemma cart_toast_error: "cart (toast_error m s) = cart s"
  by (simp add: toast_error_def)

lemma cart_sent: "cart (sent r s) = cart s"
  by (simp add: sent_def)

lemma cart_setCart: "cart (setCart c s) = c"
  by (simp add: setCart_def)

lemma cart_persisted:
  "cart (case setItem env k v s of None \<Rightarrow> toast_error m s | Some s' \<Rightarrow> s') = cart s"
  by (simp add: setItem_def toast_error_def)

lemma addProduct_cart:
  "cart (addProduct env i s) =
     (case api_stock env i of
        None \<Rightarrow> cart s
      | Some st \<Rightarrow>
          if amount_stock st < currentAmount i (cart s) + 1 then cart s
          else (case find (\<lambda>product. id_product product = i) (cart s) of
                  Some p \<Rightarrow> assign_amount i (amount p + 1) (cart s)
                | None \<Rightarrow> (case api_products env i of
                             None \<Rightarrow> cart s
                           | Some d \<Rightarrow> cart s @ [newProduct d])))"
  by (simp add: addProduct_def Let_def currentAmount_def cart_persisted cart_toast_error
      cart_sent cart_setCart split: option.split)

lemma removeProduct_cart:
  "cart (removeProduct env i s) =
     (if 0 \<le> findIndex (\<lambda>product. id_product product = i) (cart s)
      then splice1 (findIndex (\<lambda>product. id_product product = i) (cart s)) (cart s)
      else cart s)"
  by (simp add: removeProduct_def Let_def cart_persisted cart_toast_error cart_setCart)

lemma updateProductAmount_cart:
  "cart (updateProductAmount env i a s) =
     (if a \<le> 0 then cart s
      else case api_stock env i of
             None \<Rightarrow> cart s
           | Some st \<Rightarrow>
               if amount_stock st < a then cart s
               else (case find (\<lambda>product. id_product product = i) (cart s) of
                       Some p \<Rightarrow> assign_amount i a (cart s)
                     | None \<Rightarrow> cart s))"
  by (simp add: updateProductAmount_def Let_def cart_persisted cart_toast_error
      cart_sent cart_setCart split: option.split)

lemma addProduct_cart_ok:
  assumes "cart_ok (cart s)" and "catalog_ok (env, AddProduct i)"
  shows "cart_ok (cart (addProduct env i s))"
proof (cases "find (\<lambda>product. id_product product = i) (cart s)")
  case None
  with assms show ?thesis
    by (auto simp: addProduct_cart cart_ok_newProduct split: option.split)
next
  case (Some p)
  with assms(1) have "1 \<le> amount p + 1" by (auto dest: cart_ok_found)
  with assms(1) Some show ?thesis
    by (simp add: addProduct_cart cart_ok_assign_amount split: option.split)
qed

lemma removeProduct_cart_ok: "cart_ok (cart s) \<Longrightarrow> cart_ok (cart (removeProduct env i s))"
  by (simp add: removeProduct_cart cart_ok_splice1)

lemma updateProductAmount_cart_ok:
  "cart_ok (cart s) \<Longrightarrow> cart_ok (cart (updateProductAmount env i a s))"
  by (simp add: updateProductAmount_cart cart_ok_assign_amount split: option.split)

lemma perform_cart_ok:
  "cart_ok (cart s) \<Longrightarrow> catalog_ok (env, c) \<Longrightarrow> cart_ok (cart (perform env c s))"
  by (cases c) (simp_all add: addProduct_cart_ok removeProduct_cart_ok updateProductAmount_cart_ok)

subsection \<open>addProduct, path by path\<close>

lemma addProduct_stock_rejected:
  "api_stock env i = None \<Longrightarrow>
   addProduct env i s = s\<lparr>toasts := toasts s @ [Erro_na_adicao], requests := requests s @ [Get_stock i]\<rparr>"
  by (simp add: addProduct_def Let_def toast_error_def sent_def)

lemma addProduct_out_of_stock:
  "api_stock env i = Some st \<Longrightarrow> amount_stock st < currentAmount i (cart s) + 1 \<Longrightarrow>
   addProduct env i s =
     s\<lparr>toasts := toasts s @ [Quantidade_fora_de_estoque], requests := requests s @ [Get_stock i]\<rparr>"
  by (simp add: addProduct_def Let_def currentAmount_def toast_error_def sent_def
      split: option.splits)

lemma addProduct_catalog_rejected:
  "api_stock env i = Some st \<Longrightarrow> currentAmount i (cart s) + 1 \<le> amount_stock st \<Longrightarrow>
   find (\<lambda>product. id_product product = i) (cart s) = None \<Longrightarrow>
   api_products env i = None \<Longrightarrow>
   addProduct env i s =
     s\<lparr>toasts := toasts s @ [Erro_na_adicao],
       requests := requests s @ [Get_stock i, Get_products i]\<rparr>"
  by (simp add: addProduct_def Let_def currentAmount_def toast_error_def sent_def)

lemma addProduct_existing:
  "api_stock env i = Some st \<Longrightarrow> currentAmount i (cart s) + 1 \<le> amount_stock st \<Longrightarrow>
   find (\<lambda>product. id_product product = i) (cart s) = Some p \<Longrightarrow>
   updatedCart = assign_amount i (amount p + 1) (cart s) \<Longrightarrow>
   addProduct env i s =
     (if setItem_throws env cart_key (JSON_stringify env updatedCart)
      then s\<lparr>cart := updatedCart, toasts := toasts s @ [Erro_na_adicao],
             requests := requests s @ [Get_stock i]\<rparr>
      else s\<lparr>cart := updatedCart,
             localStorage := (localStorage s)(cart_key \<mapsto> JSON_stringify env updatedCart),
             requests := requests s @ [Get_stock i]\<rparr>)"
  by (simp add: addProduct_def Let_def currentAmount_def toast_error_def sent_def setCart_def
      setItem_def)

lemma addProduct_new:
  "api_stock env i = Some st \<Longrightarrow> currentAmount i (cart s) + 1 \<le> amount_stock st \<Longrightarrow>
   find (\<lambda>product. id_product product = i) (cart s) = None \<Longrightarrow>
   api_products env i = Some d \<Longrightarrow>
   updatedCart = cart s @ [newProduct d] \<Longrightarrow>
   addProduct env i s =
     (if setItem_throws env cart_key (JSON_stringify env updatedCart)
      then s\<lparr>cart := updatedCart, toasts := toasts s @ [Erro_na_adicao],
             requests := requests s @ [Get_stock i, Get_products i]\<rparr>
      else s\<lparr>cart := updatedCart,
             localStorage := (localStorage s)(cart_key \<mapsto> JSON_stringify env updatedCart),
             requests := requests s @ [Get_stock i, Get_products i]\<rparr>)"
  by (simp add: addProduct_def Let_def currentAmount_def toast_error_def sent_def setCart_def
      setItem_def)

subsection \<open>removeProduct, path by path\<close>

lemma removeProduct_absent:
  "findIndex (\<lambda>product. id_product product = i) (cart s) < 0 \<Longrightarrow>
   removeProduct env i s = s\<lparr>toasts := toasts s @ [Erro_na_remocao]\<rparr>"
  by (simp add: removeProduct_def Let_def toast_error_def)

lemma removeProduct_present:
  "0 \<le> findIndex (\<lambda>product. id_product product = i) (cart s) \<Longrightarrow>
   k = nat (findIndex (\<lambda>product. id_product product = i) (cart s)) \<Longrightarrow>
   updatedCart = take k (cart s) @ drop (Suc k) (cart s) \<Longrightarrow>
   removeProduct env i s =
     (if setItem_throws env cart_key (JSON_stringify env updatedCart)
      then s\<lparr>cart := updatedCart, toasts := toasts s @ [Erro_na_remocao]\<rparr>
      else s\<lparr>cart := updatedCart,
             localStorage := (localStorage s)(cart_key \<mapsto> JSON_stringify env updatedCart)\<rparr>)"
  by (simp add: removeProduct_def Let_def toast_error_def setCart_def setItem_def splice1_def)

subsection \<open>updateProductAmount, path by path\<close>

lemma updateProductAmount_not_positive:
  "a \<le> 0 \<Longrightarrow> updateProductAmount env i a s = s"
  by (simp add: updateProductAmount_def)

lemma updateProductAmount_stock_rejected:
  "0 < a \<Longrightarrow> api_stock env i = None \<Longrightarrow>
   updateProductAmount env i a s =
     s\<lparr>toasts := toasts s @ [Erro_na_alteracao], requests := requests s @ [Get_stock i]\<rparr>"
  by (simp add: updateProductAmount_def Let_def toast_error_def sent_def)

lemma updateProductAmount_out_of_stock:
  "0 < a \<Longrightarrow> api_stock env i = Some st \<Longrightarrow> amount_stock st < a \<Longrightarrow>
   updateProductAmount env i a s =
     s\<lparr>toasts := toasts s @ [Quantidade_fora_de_estoque], requests := requests s @ [Get_stock i]\<rparr>"
  by (simp add: updateProductAmount_def Let_def toast_error_def sent_def)

lemma updateProductAmount_absent:
  "0 < a \<Longrightarrow> api_stock env i = Some st \<Longrightarrow> a \<le> amount_stock st \<Longrightarrow>
   find (\<lambda>product. id_product product = i) (cart s) = None \<Longrightarrow>
   updateProductAmount env i a s =
     s\<lparr>toasts := toasts s @ [Erro_na_alteracao], requests := requests s @ [Get_stock i]\<rparr>"
  by (simp add: updateProductAmount_def Let_def toast_error_def sent_def)

lemma updateProductAmount_present:
  "0 < a \<Longrightarrow> api_stock env i = Some st \<Longrightarrow> a \<le> amount_stock st \<Longrightarrow>
   find (\<lambda>product. id_product product = i) (cart s) = Some p \<Longrightarrow>
   updatedCart = assign_amount i a (cart s) \<Longrightarrow>
   updateProductAmount env i a s =
     (if setItem_throws env cart_key (JSON_stringify env updatedCart)
      then s\<lparr>cart := updatedCart, toasts := toasts s @ [Erro_na_alteracao],
             requests := requests s @ [Get_stock i]\<rparr>
      else s\<lparr>cart := updatedCart,
             localStorage := (localStorage s)(cart_key \<mapsto> JSON_stringify env updatedCart),
             requests := requests s @ [Get_stock i]\<rparr>)"
  by (simp add: updateProductAmount_def Let_def toast_error_def sent_def setCart_def
      setItem_def)

subsection \<open>C1: the invariant of the cart\<close>

lemma run_cart_ok:
  "cart_ok (cart s) \<Longrightarrow> list_all catalog_ok calls \<Longrightarrow> cart_ok (cart (run calls s))"
proof (induction calls arbitrary: s)
  case Nil
  then show ?case by simp
next
  case (Cons ec calls)
  obtain env c where ec: "ec = (env, c)" by (cases ec)
  with Cons.prems have "cart_ok (cart (perform env c s))"
    by (simp add: perform_cart_ok)
  with Cons ec show ?case by simp
qed

text \<open>
  C1. Start from a cart that satisfies the invariant (the empty cart does; a cart loaded
  from the storage does when it is one this hook stored), and let the catalog answer every
  \<open>addProduct(productId)\<close> with a product whose id is \<open>productId\<close>. Then after any
  sequence of addProduct, removeProduct and updateProductAmount calls, whatever the stock
  service answers and whether or not the storage accepts the writes, every item of the
  cart has an amount of at least 1 and no two items have the same id.
\<close>

theorem cart_invariant_reachable:
  assumes "cart_ok (cart s)" and "list_all catalog_ok calls"
  shows "(\<forall>p \<in> set (cart (run calls s)). 1 \<le> amount p) \<and>
         distinct (map id_product (cart (run calls s)))"
  using run_cart_ok [OF assms] by (simp add: cart_ok_def list_all_iff)

theorem cart_invariant_reachable_witness:
  "cart_ok (cart first_visit) \<and>
   list_all catalog_ok
     [(shop, AddProduct 1), (shop, AddProduct 1), (shop_storage_full, AddProduct 2),
      (shop, UpdateProductAmount 1 4), (shop, AddProduct 2), (shop, RemoveProduct 3),
      (shop, UpdateProductAmount 1 0), (shop, RemoveProduct 1)] \<and>
   list_all (\<lambda>p. 1 \<le> amount p)
     (cart (run
       [(shop, AddProduct 1), (shop, AddProduct 1), (shop_storage_full, AddProduct 2),
        (shop, UpdateProductAmount 1 4), (shop, AddProduct 2), (shop, RemoveProduct 3),
        (shop, UpdateProductAmount 1 0), (shop, RemoveProduct 1)] first_visit)) \<and>
   distinct (map id_product
     (cart (run
       [(shop, AddProduct 1), (shop, AddProduct 1), (shop_storage_full, AddProduct 2),
        (shop, UpdateProductAmount 1 4), (shop, AddProduct 2), (shop, RemoveProduct 3),
        (shop, UpdateProductAmount 1 0), (shop, RemoveProduct 1)] first_visit))) \<and>
   cart (run
       [(shop, AddProduct 1), (shop, AddProduct 1), (shop_storage_full, AddProduct 2),
        (shop, UpdateProductAmount 1 4), (shop, AddProduct 2), (shop, RemoveProduct 3),
        (shop, UpdateProductAmount 1 0), (shop, RemoveProduct 1)] first_visit) =
     [\<lparr>id_product = 2, meta = 13990, amount = 1\<rparr>]"
proof -
  have h1: "cart_ok (cart first_visit)"
    by (simp add: cart_ok_def first_visit_def)
  have h2: "list_all catalog_ok
     [(shop, AddProduct 1), (shop, AddProduct 1), (shop_storage_full, AddProduct 2),
      (shop, UpdateProductAmount 1 4), (shop, AddProduct 2), (shop, RemoveProduct 3),
      (shop, UpdateProductAmount 1 0), (shop, RemoveProduct 1)]"
    by (simp add: shop_def shop_storage_full_def)
  have h3: "cart (run
       [(shop, AddProduct 1), (shop, AddProduct 1), (shop_storage_full, AddProduct 2),
        (shop, UpdateProductAmount 1 4), (shop, AddProduct 2), (shop, RemoveProduct 3),
        (shop, UpdateProductAmount 1 0), (shop, RemoveProduct 1)] first_visit) =
     [\<lparr>id_product = 2, meta = 13990, amount = 1\<rparr>]"
    by (simp add: addProduct_cart removeProduct_cart updateProductAmount_cart
        currentAmount_def splice1_def first_visit_def shop_def shop_storage_full_def
        newProduct_def)
  from cart_invariant_reachable [OF h1 h2] h1 h2 h3 show ?thesis
    by (simp add: list_all_iff)
qed

subsection \<open>C3: the out-of-stock guard of addProduct\<close>

text \<open>
  C3. When the stock service answers and \<open>currentAmount + 1\<close> exceeds the amount in
  stock, addProduct emits the out-of-stock notification and leaves the cart and the storage
  as they were. The guard fires before anything else is done: the only request sent is the
  one for the stock, the catalog is never asked.
\<close>

theorem addProduct_out_of_stock_guard:
  assumes "api_stock env productId = Some stock"
      and "currentAmount productId (cart s) + 1 > amount_stock stock"
  shows "cart (addProduct env productId s) = cart s \<and>
         localStorage (addProduct env productId s) = localStorage s \<and>
         toasts (addProduct env productId s) = toasts s @ [Quantidade_fora_de_estoque] \<and>
         requests (addProduct env productId s) = requests s @ [Get_stock productId]"
  using addProduct_out_of_stock [OF assms] by simp

theorem addProduct_out_of_stock_guard_witness:
  "api_stock shop 1 = Some \<lparr>id_stock = 1, amount_stock = 5\<rparr> \<and>
   currentAmount 1 (cart all_in_stock) + 1 > amount_stock \<lparr>id_stock = 1, amount_stock = 5\<rparr> \<and>
   cart (addProduct shop 1 all_in_stock) = cart all_in_stock \<and>
   localStorage (addProduct shop 1 all_in_stock) = localStorage all_in_stock \<and>
   toasts (addProduct shop 1 all_in_stock) = [Quantidade_fora_de_estoque] \<and>
   requests (addProduct shop 1 all_in_stock) = [Get_stock 1]"
proof -
  have h1: "api_stock shop 1 = Some \<lparr>id_stock = 1, amount_stock = 5\<rparr>"
    by (simp add: shop_def)
  have h2: "currentAmount 1 (cart all_in_stock) + 1 > amount_stock \<lparr>id_stock = 1, amount_stock = 5\<rparr>"
    by (simp add: currentAmount_def all_in_stock_def)
  from addProduct_out_of_stock_guard [OF h1 h2] h1 h2 show ?thesis
    by (simp add: all_in_stock_def)
qed

subsection \<open>C4: addProduct when the stock allows one more\<close>

text \<open>
  C4. When the stock service answers and \<open>currentAmount + 1\<close> does not exceed the amount
  in stock:
  \<^item> if the product is in the cart, the item \<open>find\<close> returns (at index \<open>k\<close>) gets its
    amount raised by one, its other fields and all other items stay as they were, and (the
    storage accepting the write) the serialised new cart is stored under the cart key;
  \<^item> if it is not and the catalog answers, an item with the fields of the answer and
    amount 1 is appended at the end, and (the storage accepting the write) the serialised
    new cart is stored under the cart key;
  \<^item> if it is not and the catalog request fails, only the notification is emitted.
\<close>

theorem addProduct_in_stock:
  assumes "api_stock env productId = Some stock"
      and "currentAmount productId (cart s) + 1 \<le> amount_stock stock"
  shows "case find (\<lambda>product. id_product product = productId) (cart s) of
           Some p \<Rightarrow>
             (let k = nat (findIndex (\<lambda>product. id_product product = productId) (cart s));
                  updatedCart = (cart s)[k := p\<lparr>amount := amount p + 1\<rparr>]
              in k < length (cart s) \<and> cart s ! k = p \<and>
                 (\<not> setItem_throws env cart_key (JSON_stringify env updatedCart) \<longrightarrow>
                  addProduct env productId s =
                    s\<lparr>cart := updatedCart,
                      localStorage :=
                        (localStorage s)(cart_key \<mapsto> JSON_stringify env updatedCart),
                      requests := requests s @ [Get_stock productId]\<rparr>))
         | None \<Rightarrow>
             (case api_products env productId of
                Some d \<Rightarrow>
                  (let updatedCart =
                         cart s @ [\<lparr>id_product = id_data d, meta = meta_data d, amount = 1\<rparr>]
                   in \<not> setItem_throws env cart_key (JSON_stringify env updatedCart) \<longrightarrow>
                      addProduct env productId s =
                        s\<lparr>cart := updatedCart,
                          localStorage :=
                            (localStorage s)(cart_key \<mapsto> JSON_stringify env updatedCart),
                          requests := requests s @ [Get_stock productId, Get_products productId]\<rparr>)
              | None \<Rightarrow>
                  addProduct env productId s =
                    s\<lparr>toasts := toasts s @ [Erro_na_adicao],
                      requests := requests s @ [Get_stock productId, Get_products productId]\<rparr>)"
proof (cases "find (\<lambda>product. id_product product = productId) (cart s)")
  case None
  show ?thesis
  proof (cases "api_products env productId")
    case no: None
    from addProduct_catalog_rejected [OF assms None no] None no show ?thesis by simp
  next
    case (Some d)
    from addProduct_new [OF assms None Some refl] None Some show ?thesis
      by (simp add: newProduct_def)
  qed
next
  case (Some p)
  have k: "0 \<le> findIndex (\<lambda>product. id_product product = productId) (cart s)"
      "cart s ! nat (findIndex (\<lambda>product. id_product product = productId) (cart s)) = p"
    using find_findIndex [OF Some] by simp_all
  have "findIndex (\<lambda>product. id_product product = productId) (cart s) < int (length (cart s))"
    by (simp add: findIndex_range)
  with k have len:
    "nat (findIndex (\<lambda>product. id_product product = productId) (cart s)) < length (cart s)"
    by linarith
  from addProduct_existing [OF assms Some refl] Some k len show ?thesis
    by (simp add: assign_amount_update [OF Some] Let_def)
qed

theorem addProduct_in_stock_witness:
  "api_stock shop 1 = Some \<lparr>id_stock = 1, amount_stock = 5\<rparr> \<and>
   currentAmount 1 (cart first_visit) + 1 \<le> 5 \<and>
   currentAmount 1 (cart one_item) + 1 \<le> 5 \<and>
   \<not> setItem_throws shop cart_key
       (JSON_stringify shop [\<lparr>id_product = 1, meta = 17990, amount = 1\<rparr>]) \<and>
   \<not> setItem_throws shop cart_key
       (JSON_stringify shop [\<lparr>id_product = 1, meta = 17990, amount = 2\<rparr>]) \<and>
   addProduct shop 1 first_visit =
     \<lparr>cart = [\<lparr>id_product = 1, meta = 17990, amount = 1\<rparr>],
      localStorage = [cart_key \<mapsto> cart_text [\<lparr>id_product = 1, meta = 17990, amount = 1\<rparr>]],
      toasts = [], requests = [Get_stock 1, Get_products 1]\<rparr> \<and>
   addProduct shop 1 one_item =
     \<lparr>cart = [\<lparr>id_product = 1, meta = 17990, amount = 2\<rparr>],
      localStorage = [cart_key \<mapsto> cart_text [\<lparr>id_product = 1, meta = 17990, amount = 2\<rparr>]],
      toasts = [], requests = [Get_stock 1]\<rparr>"
proof -
  have h1: "api_stock shop 1 = Some \<lparr>id_stock = 1, amount_stock = 5\<rparr>"
    by (simp add: shop_def)
  have h2: "currentAmount 1 (cart first_visit) + 1 \<le> amount_stock \<lparr>id_stock = 1, amount_stock = 5\<rparr>"
    by (simp add: currentAmount_def first_visit_def)
  have h2': "currentAmount 1 (cart one_item) + 1 \<le> amount_stock \<lparr>id_stock = 1, amount_stock = 5\<rparr>"
    by (simp add: currentAmount_def one_item_def)
  have h3: "\<not> setItem_throws shop cart_key v" for v
    by (simp add: shop_def)
  have a: "addProduct shop 1 first_visit =
     \<lparr>cart = [\<lparr>id_product = 1, meta = 17990, amount = 1\<rparr>],
      localStorage = [cart_key \<mapsto> cart_text [\<lparr>id_product = 1, meta = 17990, amount = 1\<rparr>]],
      toasts = [], requests = [Get_stock 1, Get_products 1]\<rparr>"
    using addProduct_in_stock [OF h1 h2]
    by (simp add: first_visit_def shop_def Let_def)
  have b: "addProduct shop 1 one_item =
     \<lparr>cart = [\<lparr>id_product = 1, meta = 17990, amount = 2\<rparr>],
      localStorage = [cart_key \<mapsto> cart_text [\<lparr>id_product = 1, meta = 17990, amount = 2\<rparr>]],
      toasts = [], requests = [Get_stock 1]\<rparr>"
    using addProduct_in_stock [OF h1 h2']
    by (simp add: one_item_def shop_def Let_def)
  from h1 h2 h2' h3 a b show ?thesis by simp
qed

subsection \<open>C10: the amount of a new item\<close>

text \<open>
  C10. For every answer \<open>d\<close> of the catalog, with or without an \<open>amount\<close> of its own: when
  the product is not in the cart and at least one unit is in stock, the cart addProduct sets
  is the old cart followed by one item with the id and the other fields of \<open>d\<close> and with
  amount 1 (whether or not the storage accepts the write afterwards).
\<close>

theorem addProduct_new_item_amount:
  assumes "api_stock env productId = Some stock"
      and "1 \<le> amount_stock stock"
      and "find (\<lambda>product. id_product product = productId) (cart s) = None"
      and "api_products env productId = Some d"
  shows "cart (addProduct env productId s) =
           cart s @ [\<lparr>id_product = id_data d, meta = meta_data d, amount = 1\<rparr>] \<and>
         amount (last (cart (addProduct env productId s))) = 1"
proof -
  have "currentAmount productId (cart s) + 1 \<le> amount_stock stock"
    using assms(2,3) by (simp add: currentAmount_def)
  from addProduct_new [OF assms(1) this assms(3,4) refl] show ?thesis
    by (simp add: newProduct_def)
qed

theorem addProduct_new_item_amount_witness:
  "api_stock shop 2 = Some \<lparr>id_stock = 2, amount_stock = 1\<rparr> \<and>
   find (\<lambda>product. id_product product = 2) (cart one_item) = None \<and>
   api_products shop 2 = Some \<lparr>id_data = 2, meta_data = 13990, amount_data = Some 7\<rparr> \<and>
   cart (addProduct shop 2 one_item) =
     [\<lparr>id_product = 1, meta = 17990, amount = 1\<rparr>,
      \<lparr>id_product = 2, meta = 13990, amount = 1\<rparr>] \<and>
   amount (last (cart (addProduct shop 2 one_item))) = 1"
proof -
  have h1: "api_stock shop 2 = Some \<lparr>id_stock = 2, amount_stock = 1\<rparr>"
    by (simp add: shop_def)
  have h2: "1 \<le> amount_stock \<lparr>id_stock = 2, amount_stock = 1\<rparr>"
    by simp
  have h3: "find (\<lambda>product. id_product product = 2) (cart one_item) = None"
    by (simp add: one_item_def)
  have h4: "api_products shop 2 = Some \<lparr>id_data = 2, meta_data = 13990, amount_data = Some 7\<rparr>"
    by (simp add: shop_def)
  from addProduct_new_item_amount [OF h1 h2 h3 h4] h1 h3 h4 show ?thesis
    by (simp add: one_item_def)
qed

subsection \<open>C2: addProduct when a step fails\<close>

text \<open>
  C2 as stated does not hold when the step that fails is the write to the storage:
  \<open>setCart(updatedCart)\<close> has run by then. On a first visit, with the storage refusing the
  write, \<open>addProduct(1)\<close> emits the notification and leaves the storage untouched, but the
  cart in memory holds the new item.
\<close>

theorem addProduct_storage_failure_counterexample:
  "setItem_throws shop_storage_full cart_key
     (JSON_stringify shop_storage_full [\<lparr>id_product = 1, meta = 17990, amount = 1\<rparr>]) \<and>
   toasts (addProduct shop_storage_full 1 first_visit) = [Erro_na_adicao] \<and>
   localStorage (addProduct shop_storage_full 1 first_visit) = localStorage first_visit \<and>
   cart first_visit = [] \<and>
   cart (addProduct shop_storage_full 1 first_visit) =
     [\<lparr>id_product = 1, meta = 17990, amount = 1\<rparr>]"
  by (simp add: addProduct_def shop_storage_full_def shop_def first_visit_def Let_def
      sent_def setCart_def setItem_def toast_error_def newProduct_def)

text \<open>
  C2, amended. When the stock request fails, or the product is new and the catalog request
  fails, addProduct emits the generic notification and leaves cart and storage as they
  were. When the write to the storage fails (third and fourth part: the product was in the
  cart, the product is new), it emits the generic notification and leaves the storage as
  it was, and the cart in memory is the updated cart.
\<close>

theorem addProduct_failure:
  "(api_stock env productId = None \<longrightarrow>
      addProduct env productId s =
        s\<lparr>toasts := toasts s @ [Erro_na_adicao],
          requests := requests s @ [Get_stock productId]\<rparr>) \<and>
   (\<forall>stock. api_stock env productId = Some stock \<longrightarrow>
      currentAmount productId (cart s) + 1 \<le> amount_stock stock \<longrightarrow>
      find (\<lambda>product. id_product product = productId) (cart s) = None \<longrightarrow>
      api_products env productId = None \<longrightarrow>
      addProduct env productId s =
        s\<lparr>toasts := toasts s @ [Erro_na_adicao],
          requests := requests s @ [Get_stock productId, Get_products productId]\<rparr>) \<and>
   (\<forall>stock p updatedCart. api_stock env productId = Some stock \<longrightarrow>
      currentAmount productId (cart s) + 1 \<le> amount_stock stock \<longrightarrow>
      find (\<lambda>product. id_product product = productId) (cart s) = Some p \<longrightarrow>
      updatedCart =
        (cart s)[nat (findIndex (\<lambda>product. id_product product = productId) (cart s)) :=
                   p\<lparr>amount := amount p + 1\<rparr>] \<longrightarrow>
      setItem_throws env cart_key (JSON_stringify env updatedCart) \<longrightarrow>
      addProduct env productId s =
        s\<lparr>cart := updatedCart, toasts := toasts s @ [Erro_na_adicao],
          requests := requests s @ [Get_stock productId]\<rparr>) \<and>
   (\<forall>stock d updatedCart. api_stock env productId = Some stock \<longrightarrow>
      currentAmount productId (cart s) + 1 \<le> amount_stock stock \<longrightarrow>
      find (\<lambda>product. id_product product = productId) (cart s) = None \<longrightarrow>
      api_products env productId = Some d \<longrightarrow>
      updatedCart = cart s @ [\<lparr>id_product = id_data d, meta = meta_data d, amount = 1\<rparr>] \<longrightarrow>
      setItem_throws env cart_key (JSON_stringify env updatedCart) \<longrightarrow>
      addProduct env productId s =
        s\<lparr>cart := updatedCart, toasts := toasts s @ [Erro_na_adicao],
          requests := requests s @ [Get_stock productId, Get_products productId]\<rparr>)"
proof (intro conjI allI impI)
  assume "api_stock env productId = None"
  then show "addProduct env productId s =
        s\<lparr>toasts := toasts s @ [Erro_na_adicao],
          requests := requests s @ [Get_stock productId]\<rparr>"
    by (rule addProduct_stock_rejected)
next
  fix stock
  assume "api_stock env productId = Some stock"
    "currentAmount productId (cart s) + 1 \<le> amount_stock stock"
    "find (\<lambda>product. id_product product = productId) (cart s) = None"
    "api_products env productId = None"
  then show "addProduct env productId s =
        s\<lparr>toasts := toasts s @ [Erro_na_adicao],
          requests := requests s @ [Get_stock productId, Get_products productId]\<rparr>"
    by (rule addProduct_catalog_rejected)
next
  fix stock p updatedCart
  assume h: "api_stock env productId = Some stock"
    "currentAmount productId (cart s) + 1 \<le> amount_stock stock"
    "find (\<lambda>product. id_product product = productId) (cart s) = Some p"
    and u: "updatedCart =
        (cart s)[nat (findIndex (\<lambda>product. id_product product = productId) (cart s)) :=
                   p\<lparr>amount := amount p + 1\<rparr>]"
    and t: "setItem_throws env cart_key (JSON_stringify env updatedCart)"
  from u have "updatedCart = assign_amount productId (amount p + 1) (cart s)"
    by (simp add: assign_amount_update [OF h(3)])
  from addProduct_existing [OF h this] t
  show "addProduct env productId s =
        s\<lparr>cart := updatedCart, toasts := toasts s @ [Erro_na_adicao],
          requests := requests s @ [Get_stock productId]\<rparr>"
    by simp
next
  fix stock d updatedCart
  assume h: "api_stock env productId = Some stock"
    "currentAmount productId (cart s) + 1 \<le> amount_stock stock"
    "find (\<lambda>product. id_product product = productId) (cart s) = None"
    "api_products env productId = Some d"
    and u: "updatedCart = cart s @ [\<lparr>id_product = id_data d, meta = meta_data d, amount = 1\<rparr>]"
    and t: "setItem_throws env cart_key (JSON_stringify env updatedCart)"
  from u have "updatedCart = cart s @ [newProduct d]"
    by (simp add: newProduct_def)
  from addProduct_new [OF h this] t
  show "addProduct env productId s =
        s\<lparr>cart := updatedCart, toasts := toasts s @ [Erro_na_adicao],
          requests := requests s @ [Get_stock productId, Get_products productId]\<rparr>"
    by simp
qed

theorem addProduct_failure_witness:
  "api_stock shop 4 = None \<and>
   addProduct shop 4 one_item = one_item\<lparr>toasts := [Erro_na_adicao], requests := [Get_stock 4]\<rparr> \<and>
   api_stock shop 3 = Some \<lparr>id_stock = 3, amount_stock = 2\<rparr> \<and>
   currentAmount 3 (cart one_item) + 1 \<le> 2 \<and>
   find (\<lambda>product. id_product product = 3) (cart one_item) = None \<and>
   api_products shop 3 = None \<and>
   addProduct shop 3 one_item =
     one_item\<lparr>toasts := [Erro_na_adicao], requests := [Get_stock 3, Get_products 3]\<rparr> \<and>
   api_stock shop_storage_full 1 = Some \<lparr>id_stock = 1, amount_stock = 5\<rparr> \<and>
   currentAmount 1 (cart one_item) + 1 \<le> 5 \<and>
   find (\<lambda>product. id_product product = 1) (cart one_item) =
     Some \<lparr>id_product = 1, meta = 17990, amount = 1\<rparr> \<and>
   setItem_throws shop_storage_full cart_key
     (JSON_stringify shop_storage_full [\<lparr>id_product = 1, meta = 17990, amount = 2\<rparr>]) \<and>
   addProduct shop_storage_full 1 one_item =
     one_item\<lparr>cart := [\<lparr>id_product = 1, meta = 17990, amount = 2\<rparr>],
       toasts := [Erro_na_adicao], requests := [Get_stock 1]\<rparr> \<and>
   api_stock shop_storage_full 2 = Some \<lparr>id_stock = 2, amount_stock = 1\<rparr> \<and>
   currentAmount 2 (cart one_item) + 1 \<le> 1 \<and>
   find (\<lambda>product. id_product product = 2) (cart one_item) = None \<and>
   api_products shop_storage_full 2 =
     Some \<lparr>id_data = 2, meta_data = 13990, amount_data = Some 7\<rparr> \<and>
   setItem_throws shop_storage_full cart_key
     (JSON_stringify shop_storage_full
       [\<lparr>id_product = 1, meta = 17990, amount = 1\<rparr>,
        \<lparr>id_product = 2, meta = 13990, amount = 1\<rparr>]) \<and>
   addProduct shop_storage_full 2 one_item =
     one_item\<lparr>cart := [\<lparr>id_product = 1, meta = 17990, amount = 1\<rparr>,
                       \<lparr>id_product = 2, meta = 13990, amount = 1\<rparr>],
       toasts := [Erro_na_adicao], requests := [Get_stock 2, Get_products 2]\<rparr>"
  using addProduct_failure [of shop 4 one_item]
    addProduct_failure [of shop 3 one_item]
    addProduct_failure [of shop_storage_full 1 one_item]
    addProduct_failure [of shop_storage_full 2 one_item]
  by (simp add: shop_def shop_storage_full_def one_item_def currentAmount_def)

subsection \<open>C5: updateProductAmount with a positive amount\<close>

text \<open>
  C5. For a positive amount, when the stock service answers:
  \<^item> if the amount exceeds the amount in stock, the out-of-stock notification is emitted
    and nothing else changes;
  \<^item> otherwise, if the product is in the cart, the item \<open>find\<close> returns (at index \<open>k\<close>)
    gets the requested amount, nothing else in the cart changes, and (the storage accepting
    the write) the serialised new cart is stored under the cart key;
  \<^item> otherwise the generic notification is emitted and neither cart nor storage changes.
\<close>

theorem updateProductAmount_positive:
  assumes "0 < amount'"
      and "api_stock env productId = Some stock"
  shows "if amount' > amount_stock stock then
           updateProductAmount env productId amount' s =
             s\<lparr>toasts := toasts s @ [Quantidade_fora_de_estoque],
               requests := requests s @ [Get_stock productId]\<rparr>
         else
           (case find (\<lambda>product. id_product product = productId) (cart s) of
              Some p \<Rightarrow>
                (let k = nat (findIndex (\<lambda>product. id_product product = productId) (cart s));
                     updatedCart = (cart s)[k := p\<lparr>amount := amount'\<rparr>]
                 in k < length (cart s) \<and> cart s ! k = p \<and>
                    (\<not> setItem_throws env cart_key (JSON_stringify env updatedCart) \<longrightarrow>
                     updateProductAmount env productId amount' s =
                       s\<lparr>cart := updatedCart,
                         localStorage :=
                           (localStorage s)(cart_key \<mapsto> JSON_stringify env updatedCart),
                         requests := requests s @ [Get_stock productId]\<rparr>))
            | None \<Rightarrow>
                updateProductAmount env productId amount' s =
                  s\<lparr>toasts := toasts s @ [Erro_na_alteracao],
                    requests := requests s @ [Get_stock productId]\<rparr>)"
proof (cases "amount' > amount_stock stock")
  case True
  with updateProductAmount_out_of_stock [OF assms] show ?thesis by simp
next
  case False
  then have le: "amount' \<le> amount_stock stock" by simp
  show ?thesis
  proof (cases "find (\<lambda>product. id_product product = productId) (cart s)")
    case None
    from updateProductAmount_absent [OF assms le None] False None show ?thesis by simp
  next
    case (Some p)
    have k: "0 \<le> findIndex (\<lambda>product. id_product product = productId) (cart s)"
      "cart s ! nat (findIndex (\<lambda>product. id_product product = productId) (cart s)) = p"
      using find_findIndex [OF Some] by simp_all
    have "findIndex (\<lambda>product. id_product product = productId) (cart s) < int (length (cart s))"
      by (simp add: findIndex_range)
    with k have len:
      "nat (findIndex (\<lambda>product. id_product product = productId) (cart s)) < length (cart s)"
      by linarith
    from updateProductAmount_present [OF assms le Some refl] False Some k len show ?thesis
      by (simp add: assign_amount_update [OF Some] Let_def)
  qed
qed

theorem updateProductAmount_positive_witness:
  "api_stock shop 1 = Some \<lparr>id_stock = 1, amount_stock = 5\<rparr> \<and>
   api_stock shop 2 = Some \<lparr>id_stock = 2, amount_stock = 1\<rparr> \<and>
   updateProductAmount shop 1 6 one_item =
     one_item\<lparr>toasts := [Quantidade_fora_de_estoque], requests := [Get_stock 1]\<rparr> \<and>
   updateProductAmount shop 1 3 one_item =
     \<lparr>cart = [\<lparr>id_product = 1, meta = 17990, amount = 3\<rparr>],
      localStorage = [cart_key \<mapsto> cart_text [\<lparr>id_product = 1, meta = 17990, amount = 3\<rparr>]],
      toasts = [], requests = [Get_stock 1]\<rparr> \<and>
   updateProductAmount shop 2 1 one_item =
     one_item\<lparr>toasts := [Erro_na_alteracao], requests := [Get_stock 2]\<rparr>"
proof -
  have h1: "api_stock shop 1 = Some \<lparr>id_stock = 1, amount_stock = 5\<rparr>"
    and h2: "api_stock shop 2 = Some \<lparr>id_stock = 2, amount_stock = 1\<rparr>"
    by (simp_all add: shop_def)
  have p6: "(0::int) < 6" and p3: "(0::int) < 3" and p1: "(0::int) < 1"
    by simp_all
  have a: "updateProductAmount shop 1 6 one_item =
     one_item\<lparr>toasts := [Quantidade_fora_de_estoque], requests := [Get_stock 1]\<rparr>"
    using updateProductAmount_positive [OF p6 h1, of one_item]
    by (simp add: one_item_def)
  have b: "updateProductAmount shop 1 3 one_item =
     \<lparr>cart = [\<lparr>id_product = 1, meta = 17990, amount = 3\<rparr>],
      localStorage = [cart_key \<mapsto> cart_text [\<lparr>id_product = 1, meta = 17990, amount = 3\<rparr>]],
      toasts = [], requests = [Get_stock 1]\<rparr>"
    using updateProductAmount_positive [OF p3 h1, of one_item]
    by (simp add: one_item_def shop_def Let_def)
  have c: "updateProductAmount shop 2 1 one_item =
     one_item\<lparr>toasts := [Erro_na_alteracao], requests := [Get_stock 2]\<rparr>"
    using updateProductAmount_positive [OF p1 h2, of one_item]
    by (simp add: one_item_def)
  from h1 h2 a b c show ?thesis by simp
qed

subsection \<open>C6: removeProduct\<close>

text \<open>
  C6. If some item of the cart has the id, removeProduct takes out the first such item (at
  index \<open>k\<close>), keeps all others in their order and (the storage accepting the write)
  stores the serialised new cart; when the ids of the cart are distinct, the new cart is the
  old one without the items of that id. If no item has the id, it emits the generic
  notification and changes neither cart nor storage. No request is sent either way.
\<close>

theorem removeProduct_behaviour:
  "if \<exists>p \<in> set (cart s). id_product p = productId then
     (let k = nat (findIndex (\<lambda>product. id_product product = productId) (cart s));
          updatedCart = take k (cart s) @ drop (Suc k) (cart s)
      in k < length (cart s) \<and> id_product (cart s ! k) = productId \<and>
         (\<forall>j < k. id_product (cart s ! j) \<noteq> productId) \<and>
         (distinct (map id_product (cart s)) \<longrightarrow>
            updatedCart = filter (\<lambda>product. id_product product \<noteq> productId) (cart s)) \<and>
         (\<not> setItem_throws env cart_key (JSON_stringify env updatedCart) \<longrightarrow>
            removeProduct env productId s =
              s\<lparr>cart := updatedCart,
                localStorage := (localStorage s)(cart_key \<mapsto> JSON_stringify env updatedCart)\<rparr>))
   else removeProduct env productId s = s\<lparr>toasts := toasts s @ [Erro_na_remocao]\<rparr>"
proof (cases "\<exists>p \<in> set (cart s). id_product p = productId")
  case False
  then have "findIndex (\<lambda>product. id_product product = productId) (cart s) < 0"
    by (simp add: findIndex_negative)
  from removeProduct_absent [OF this] False show ?thesis by simp
next
  case True
  define k where "k = nat (findIndex (\<lambda>product. id_product product = productId) (cart s))"
  have pos: "0 \<le> findIndex (\<lambda>product. id_product product = productId) (cart s)"
    using True findIndex_negative [of "\<lambda>product. id_product product = productId" "cart s"]
    by auto
  have "findIndex (\<lambda>product. id_product product = productId) (cart s) < int (length (cart s))"
    by (simp add: findIndex_range)
  with pos have len: "k < length (cart s)"
    unfolding k_def by linarith
  have first: "id_product (cart s ! k) = productId"
    "\<forall>j < k. id_product (cart s ! j) \<noteq> productId"
    using findIndex_first [OF pos] unfolding k_def by simp_all
  have filt: "take k (cart s) @ drop (Suc k) (cart s) =
      filter (\<lambda>product. id_product product \<noteq> productId) (cart s)"
    if "distinct (map id_product (cart s))"
    using take_drop_filter [OF that len] first(1) by simp
  have run: "removeProduct env productId s =
      s\<lparr>cart := take k (cart s) @ drop (Suc k) (cart s),
        localStorage := (localStorage s)(cart_key \<mapsto>
          JSON_stringify env (take k (cart s) @ drop (Suc k) (cart s)))\<rparr>"
    if "\<not> setItem_throws env cart_key
          (JSON_stringify env (take k (cart s) @ drop (Suc k) (cart s)))"
    using removeProduct_present [OF pos k_def refl] that by simp
  from True len first filt run show ?thesis
    unfolding k_def [symmetric] Let_def by simp
qed

theorem removeProduct_behaviour_witness:
  "(cart all_in_stock ! 0 = \<lparr>id_product = 1, meta = 17990, amount = 5\<rparr>) \<and>
   id_product (cart all_in_stock ! 0) = 1 \<and>
   distinct (map id_product (cart all_in_stock)) \<and>
   \<not> setItem_throws shop cart_key
        (JSON_stringify shop [\<lparr>id_product = 2, meta = 13990, amount = 1\<rparr>]) \<and>
   removeProduct shop 1 all_in_stock =
     \<lparr>cart = [\<lparr>id_product = 2, meta = 13990, amount = 1\<rparr>],
      localStorage = [cart_key \<mapsto> cart_text [\<lparr>id_product = 2, meta = 13990, amount = 1\<rparr>]],
      toasts = [], requests = []\<rparr> \<and>
   removeProduct shop 99 first_visit = first_visit\<lparr>toasts := [Erro_na_remocao]\<rparr>"
  using removeProduct_behaviour [of all_in_stock 1 shop]
    removeProduct_behaviour [of first_visit 99 shop]
  by (simp add: all_in_stock_def first_visit_def shop_def Let_def)

subsection \<open>C7: updateProductAmount with an amount that is not positive\<close>

text \<open>
  C7. For an amount of 0 or less, updateProductAmount returns the state it was given,
  whatever the services and the storage would have answered: same cart, same storage, no
  notification, no request.
\<close>

theorem updateProductAmount_not_positive_noop:
  assumes "amount' \<le> 0"
  shows "updateProductAmount env productId amount' s = s"
  using assms by (rule updateProductAmount_not_positive)

theorem updateProductAmount_not_positive_noop_witness:
  "(0::int) \<le> 0 \<and> updateProductAmount shop 1 0 one_item = one_item \<and>
   (- 2::int) \<le> 0 \<and> updateProductAmount shop_storage_full 4 (- 2) all_in_stock = all_in_stock"
  using updateProductAmount_not_positive_noop [of 0 shop 1 one_item]
    updateProductAmount_not_positive_noop [of "- 2" shop_storage_full 4 all_in_stock]
  by simp

subsection \<open>C8: updateProductAmount with the amount the item has\<close>

text \<open>
  C8 as stated does not hold when the storage does not hold the cart. After an
  \<open>addProduct(1)\<close> whose write the storage refused, the cart holds product 1 with amount 1
  and nothing is stored; \<open>updateProductAmount({productId: 1, amount: 1})\<close> then writes the
  cart, so the stored value changes from absent to the serialised cart.
\<close>

theorem updateProductAmount_same_amount_counterexample:
  "cart (addProduct shop_storage_full 1 first_visit) =
     [\<lparr>id_product = 1, meta = 17990, amount = 1\<rparr>] \<and>
   localStorage (addProduct shop_storage_full 1 first_visit) cart_key = None \<and>
   localStorage (updateProductAmount shop 1 1 (addProduct shop_storage_full 1 first_visit))
     cart_key = Some (cart_text [\<lparr>id_product = 1, meta = 17990, amount = 1\<rparr>])"
  by (simp add: addProduct_def updateProductAmount_def shop_storage_full_def shop_def
      first_visit_def Let_def sent_def setCart_def setItem_def toast_error_def newProduct_def)

text \<open>
  C8, amended. For a cart with distinct ids that contains an item \<open>p\<close>, and a storage that
  holds the serialisation of that cart under the cart key: updateProductAmount with the id
  and the amount of \<open>p\<close> leaves the cart and the storage as they were, whatever the stock
  service answers (an amount, or a failure) and whether or not the storage accepts the
  write.
\<close>

theorem updateProductAmount_same_amount:
  assumes "p \<in> set (cart s)"
      and "id_product p = productId"
      and "distinct (map id_product (cart s))"
      and "localStorage s cart_key = Some (JSON_stringify env (cart s))"
  shows "cart (updateProductAmount env productId (amount p) s) = cart s \<and>
         localStorage (updateProductAmount env productId (amount p) s) = localStorage s"
proof -
  have found: "find (\<lambda>product. id_product product = productId) (cart s) = Some p"
    using find_distinct [OF assms(3,1)] assms(2) by simp
  have same: "assign_amount productId (amount p) (cart s) = cart s"
    by (rule assign_amount_same [OF found])
  have stored: "(localStorage s)(cart_key \<mapsto> JSON_stringify env (cart s)) = localStorage s"
    using assms(4) by (rule map_upd_triv)
  show ?thesis
  proof (cases "amount p \<le> 0")
    case True
    then show ?thesis by (simp add: updateProductAmount_not_positive)
  next
    case False
    then have pos: "0 < amount p" by simp
    show ?thesis
    proof (cases "api_stock env productId")
      case None
      from updateProductAmount_stock_rejected [OF pos None] show ?thesis by simp
    next
      case (Some stock)
      show ?thesis
      proof (cases "amount_stock stock < amount p")
        case True
        from updateProductAmount_out_of_stock [OF pos Some True] show ?thesis by simp
      next
        case False
        then have le: "amount p \<le> amount_stock stock" by simp
        from updateProductAmount_present [OF pos Some le found same [symmetric]] stored
        show ?thesis by simp
      qed
    qed
  qed
qed

theorem updateProductAmount_same_amount_witness:
  "\<lparr>id_product = 1, meta = 17990, amount = 5\<rparr> \<in> set (cart all_in_stock) \<and>
   distinct (map id_product (cart all_in_stock)) \<and>
   localStorage all_in_stock cart_key = Some (JSON_stringify shop (cart all_in_stock)) \<and>
   cart (updateProductAmount shop 1 5 all_in_stock) = cart all_in_stock \<and>
   localStorage (updateProductAmount shop 1 5 all_in_stock) = localStorage all_in_stock"
proof -
  have h1: "\<lparr>id_product = 1, meta = 17990, amount = 5\<rparr> \<in> set (cart all_in_stock)"
    by (simp add: all_in_stock_def)
  have h2: "id_product \<lparr>id_product = 1, meta = 17990, amount = (5::int)\<rparr> = 1"
    by simp
  have h3: "distinct (map id_product (cart all_in_stock))"
    by (simp add: all_in_stock_def)
  have h4: "localStorage all_in_stock cart_key = Some (JSON_stringify shop (cart all_in_stock))"
    by (simp add: all_in_stock_def shop_def)
  from updateProductAmount_same_amount [OF h1 h2 h3 h4] h1 h3 h4 show ?thesis
    by simp
qed

subsection \<open>The example shop reads back what it writes\<close>

declare decimal.simps [simp del]

lemma digit_value_digit: "n < 10 \<Longrightarrow> digit_value (''0123456789'' ! n) = Some n"
  unfolding digit_value_def
  by (auto simp: less_Suc_eq eval_nat_numeral)

lemma digit_not_minus: "n < 10 \<Longrightarrow> ''0123456789'' ! n \<noteq> CHR ''-''"
  by (auto simp: less_Suc_eq eval_nat_numeral)

lemma read_digits_stop: "no_digit_ahead r \<Longrightarrow> read_digits acc r = (acc, r)"
  by (cases r) (simp_all add: no_digit_ahead_def)

lemma read_natural_decimal: "read_natural (decimal n @ r) = Some (read_digits n r)"
proof (induction n arbitrary: r rule: decimal.induct)
  case (1 n)
  show ?case
  proof (cases "n < 10")
    case True
    then show ?thesis
      by (simp add: decimal.simps [of n] read_natural_def digit_value_digit)
  next
    case False
    have m: "n mod 10 < 10" by simp
    have "read_natural (decimal n @ r) =
          read_natural (decimal (n div 10) @ (''0123456789'' ! (n mod 10)) # r)"
      using False by (simp add: decimal.simps [of n])
    also have "\<dots> = Some (read_digits (n div 10) ((''0123456789'' ! (n mod 10)) # r))"
      using False by (rule "1.IH")
    also have "\<dots> = Some (read_digits (10 * (n div 10) + n mod 10) r)"
      by (simp add: digit_value_digit [OF m])
    finally show ?thesis by simp
  qed
qed

lemma decimal_head: "\<exists>c cs. decimal n = c # cs \<and> c \<noteq> CHR ''-''"
proof (induction n rule: decimal.induct)
  case (1 n)
  show ?case
  proof (cases "n < 10")
    case True
    then show ?thesis by (simp add: decimal.simps [of n] digit_not_minus)
  next
    case False
    from "1.IH" [OF False] obtain c cs where "decimal (n div 10) = c # cs" "c \<noteq> CHR ''-''"
      by blast
    with False show ?thesis by (simp add: decimal.simps [of n])
  qed
qed

lemma read_number_text:
  assumes "no_digit_ahead r"
  shows "read_number (number_text i @ r) = Some (i, r)"
proof (cases "i < 0")
  case True
  then show ?thesis
    by (simp add: number_text_def read_number_def read_natural_decimal
        read_digits_stop [OF assms])
next
  case False
  obtain c cs where d: "decimal (nat i) = c # cs" "c \<noteq> CHR ''-''"
    using decimal_head by blast
  have "read_number (decimal (nat i) @ r) =
        map_option (\<lambda>(n, r). (int n, r)) (read_natural (decimal (nat i) @ r))"
    using d by (simp add: read_number_def)
  with False show ?thesis
    by (simp add: number_text_def read_natural_decimal read_digits_stop [OF assms])
qed

lemma expect_prefix: "expect p (p @ r) = Some r"
  by (induction p) simp_all

lemma read_product_text:
  assumes "no_digit_ahead r"
  shows "read_product (product_text p @ r) = Some (p, r)"
proof -
  have a: "no_digit_ahead (('','' @ key_text ''price'') @ t)"
    and b: "no_digit_ahead (('','' @ key_text ''amount'') @ t)"
    and c: "no_digit_ahead (''}'' @ t)" for t
    by (simp_all add: no_digit_ahead_def digit_value_def)
  have "product_text p @ r =
        (''{'' @ key_text ''id'') @ number_text (id_product p) @
        ('','' @ key_text ''price'') @ number_text (meta p) @
        ('','' @ key_text ''amount'') @ number_text (amount p) @ ''}'' @ r"
    by (simp add: product_text_def)
  then show ?thesis
    unfolding read_product_def
    by (simp only: expect_prefix read_number_text [OF a] read_number_text [OF b]
        read_number_text [OF c] Option.bind.simps prod.case) simp
qed

lemma product_text_head: "\<exists>cs. product_text p = CHR ''{'' # cs"
  by (simp add: product_text_def)

lemma read_products_text:
  "ps \<noteq> [] \<Longrightarrow> length ps \<le> n \<Longrightarrow>
   read_products n (comma_separated (map product_text ps) @ '']'') = Some ps"
proof (induction ps arbitrary: n rule: induct_list012)
  case 1
  then show ?case by simp
next
  case (2 p)
  then obtain m where n: "n = Suc m" by (cases n) auto
  have "no_digit_ahead '']''" by (simp add: no_digit_ahead_def digit_value_def)
  then show ?case by (simp add: n read_product_text)
next
  case (3 p q qs)
  then obtain m where n: "n = Suc m" and m: "length (q # qs) \<le> m" by (cases n) auto
  have ih: "read_products m (comma_separated (map product_text (q # qs)) @ '']'') = Some (q # qs)"
    using "3.IH"(2) m by simp
  have nd: "no_digit_ahead ('','' @ t)" for t
    by (simp add: no_digit_ahead_def digit_value_def)
  have "read_product (product_text p @ '','' @ comma_separated (map product_text (q # qs)) @ '']'') =
        Some (p, '','' @ comma_separated (map product_text (q # qs)) @ '']'')"
    by (rule read_product_text [OF nd])
  with ih show ?case by (simp add: n)
qed

lemma length_comma_separated: "length xs \<le> length (comma_separated xs) + 1"
  by (induction xs rule: induct_list012) auto

lemma cart_of_text_cart_text: "cart_of_text (cart_text c) = Some c"
proof (cases c)
  case Nil
  then show ?thesis by (simp add: cart_of_text_def cart_text_def)
next
  case (Cons p ps)
  obtain cs where h: "product_text p = CHR ''{'' # cs" using product_text_head by blast
  have ne: "comma_separated (map product_text c) @ '']'' \<noteq> '']''"
    using Cons h by (cases ps) simp_all
  have "length c \<le> length (comma_separated (map product_text c) @ '']'')"
    using length_comma_separated [of "map product_text c"] by simp
  from read_products_text [OF _ this] Cons ne show ?thesis
    by (simp add: cart_of_text_def cart_text_def)
qed

lemma cart_text_not_empty: "cart_text c \<noteq> []"
  by (simp add: cart_text_def)

text \<open>For every cart of the example shop, \<open>JSON_parse\<close> returns the cart
  \<open>JSON_stringify\<close> was given, and the text is not empty.\<close>

lemma shop_reads_back:
  "JSON_parse shop (JSON_stringify shop c) = Some c \<and> JSON_stringify shop c \<noteq> []"
  by (simp add: shop_def cart_of_text_cart_text cart_text_not_empty)

subsection \<open>C9: the stored cart, read back by the initialiser\<close>

lemma initial_cart_stored:
  "store cart_key = Some text \<Longrightarrow> text \<noteq> [] \<Longrightarrow> initial_cart env store = JSON_parse env text"
  by (simp add: initial_cart_def)

lemma initial_cart_nothing_stored: "store cart_key = None \<Longrightarrow> initial_cart env store = Some []"
  by (simp add: initial_cart_def)

text \<open>The only write an operation makes is the serialised cart it has just set, under
  the cart key.\<close>

lemma addProduct_storage:
  "localStorage (addProduct env i s) = localStorage s \<or>
   localStorage (addProduct env i s) =
     (localStorage s)(cart_key \<mapsto> JSON_stringify env (cart (addProduct env i s)))"
  by (simp add: addProduct_def Let_def toast_error_def sent_def setCart_def setItem_def
      split: option.split)

lemma removeProduct_storage:
  "localStorage (removeProduct env i s) = localStorage s \<or>
   localStorage (removeProduct env i s) =
     (localStorage s)(cart_key \<mapsto> JSON_stringify env (cart (removeProduct env i s)))"
  by (simp add: removeProduct_def Let_def toast_error_def setCart_def setItem_def)

lemma updateProductAmount_storage:
  "localStorage (updateProductAmount env i a s) = localStorage s \<or>
   localStorage (updateProductAmount env i a s) =
     (localStorage s)(cart_key \<mapsto> JSON_stringify env (cart (updateProductAmount env i a s)))"
  by (simp add: updateProductAmount_def Let_def toast_error_def sent_def setCart_def setItem_def
      split: option.split)

lemma perform_storage:
  "localStorage (perform env call s) = localStorage s \<or>
   localStorage (perform env call s) =
     (localStorage s)(cart_key \<mapsto> JSON_stringify env (cart (perform env call s)))"
  by (cases call) (simp_all add: addProduct_storage removeProduct_storage updateProductAmount_storage)

lemma reload_after_write:
  assumes "localStorage (perform env call s) \<noteq> localStorage s"
      and "JSON_stringify env (cart (perform env call s)) \<noteq> []"
  shows "initial_cart env' (localStorage (perform env call s)) =
           JSON_parse env' (JSON_stringify env (cart (perform env call s)))"
proof -
  from perform_storage [of env call s] assms(1)
  have "localStorage (perform env call s) cart_key =
          Some (JSON_stringify env (cart (perform env call s)))"
    by (metis fun_upd_same)
  with assms(2) show ?thesis by (simp add: initial_cart_stored)
qed

text \<open>
  C9. Let \<open>JSON.parse\<close> return, for the text \<open>JSON.stringify\<close> gives for a cart \<open>c\<close>, the
  cart \<open>c\<close> again, and let that text not be empty (the text of an array starts with a
  bracket). When the statement that ends every mutation,
  \<open>localStorage.setItem('@RocketShoes:cart', JSON.stringify(c))\<close>, has stored the cart, the
  initialiser of the state, run on the storage it left (in a later visit, \<open>env'\<close>), returns
  a cart equal to \<open>c\<close>: same items in the same order, same ids, amounts and other fields.
  Whatever else the storage holds and whatever was stored under the key before makes no
  difference.
\<close>

theorem stored_cart_reloaded:
  assumes "JSON_parse env' (JSON_stringify env c) = Some c"
      and "JSON_stringify env c \<noteq> []"
      and "setItem env cart_key (JSON_stringify env c) s = Some s'"
  shows "initial_cart env' (localStorage s') = Some c"
proof -
  from assms(3) have "localStorage s' cart_key = Some (JSON_stringify env c)"
    by (auto simp: setItem_def split: if_splits)
  with assms(1,2) show ?thesis by (simp add: initial_cart_stored)
qed

theorem stored_cart_reloaded_witness:
  "JSON_parse shop
     (JSON_stringify shop
       [\<lparr>id_product = 1, meta = 17990, amount = 2\<rparr>,
        \<lparr>id_product = 2, meta = 13990, amount = 1\<rparr>]) =
     Some [\<lparr>id_product = 1, meta = 17990, amount = 2\<rparr>,
           \<lparr>id_product = 2, meta = 13990, amount = 1\<rparr>] \<and>
   JSON_stringify shop
     [\<lparr>id_product = 1, meta = 17990, amount = 2\<rparr>,
      \<lparr>id_product = 2, meta = 13990, amount = 1\<rparr>] \<noteq> [] \<and>
   setItem shop cart_key
     (JSON_stringify shop
       [\<lparr>id_product = 1, meta = 17990, amount = 2\<rparr>,
        \<lparr>id_product = 2, meta = 13990, amount = 1\<rparr>]) one_item =
     Some (one_item\<lparr>localStorage :=
       [cart_key \<mapsto> cart_text [\<lparr>id_product = 1, meta = 17990, amount = 2\<rparr>,
                               \<lparr>id_product = 2, meta = 13990, amount = 1\<rparr>]]\<rparr>) \<and>
   initial_cart shop
     (localStorage (one_item\<lparr>localStorage :=
       [cart_key \<mapsto> cart_text [\<lparr>id_product = 1, meta = 17990, amount = 2\<rparr>,
                               \<lparr>id_product = 2, meta = 13990, amount = 1\<rparr>]]\<rparr>)) =
     Some [\<lparr>id_product = 1, meta = 17990, amount = 2\<rparr>,
           \<lparr>id_product = 2, meta = 13990, amount = 1\<rparr>] \<and>
   JSON_parse shop (JSON_stringify shop []) = Some [] \<and>
   JSON_stringify shop [] \<noteq> [] \<and>
   setItem shop cart_key (JSON_stringify shop []) one_item =
     Some (one_item\<lparr>localStorage := [cart_key \<mapsto> cart_text []]\<rparr>) \<and>
   initial_cart shop (localStorage (one_item\<lparr>localStorage := [cart_key \<mapsto> cart_text []]\<rparr>)) =
     Some []"
proof -
  have p: "JSON_parse shop
     (JSON_stringify shop
       [\<lparr>id_product = 1, meta = 17990, amount = 2\<rparr>,
        \<lparr>id_product = 2, meta = 13990, amount = 1\<rparr>]) =
     Some [\<lparr>id_product = 1, meta = 17990, amount = 2\<rparr>,
           \<lparr>id_product = 2, meta = 13990, amount = 1\<rparr>]"
    by (simp add: shop_def cart_of_text_cart_text)
  have n: "JSON_stringify shop
     [\<lparr>id_product = 1, meta = 17990, amount = 2\<rparr>,
      \<lparr>id_product = 2, meta = 13990, amount = 1\<rparr>] \<noteq> []"
    by (simp add: shop_def cart_text_def)
  have w: "setItem shop cart_key
     (JSON_stringify shop
       [\<lparr>id_product = 1, meta = 17990, amount = 2\<rparr>,
        \<lparr>id_product = 2, meta = 13990, amount = 1\<rparr>]) one_item =
     Some (one_item\<lparr>localStorage :=
       [cart_key \<mapsto> cart_text [\<lparr>id_product = 1, meta = 17990, amount = 2\<rparr>,
                               \<lparr>id_product = 2, meta = 13990, amount = 1\<rparr>]]\<rparr>)"
    by (simp add: setItem_def shop_def one_item_def)
  have p0: "JSON_parse shop (JSON_stringify shop []) = Some []"
    by (simp add: shop_def cart_of_text_cart_text)
  have n0: "JSON_stringify shop [] \<noteq> []"
    by (simp add: shop_def cart_text_def)
  have w0: "setItem shop cart_key (JSON_stringify shop []) one_item =
     Some (one_item\<lparr>localStorage := [cart_key \<mapsto> cart_text []]\<rparr>)"
    by (simp add: setItem_def shop_def one_item_def)
  from stored_cart_reloaded [OF p n w] stored_cart_reloaded [OF p0 n0 w0] p n w p0 n0 w0
  show ?thesis by simp
qed

end
